theory Spec2Isabelle
  imports Main "HOL-Library.Word"
begin

unbundle bit_operations_syntax

section \<open>Go values\<close>

text \<open>
  Shallow embedding of the decoder of Android binary resources (\<^verbatim>\<open>main.go\<close>) and of
  the typed-value facades \<^verbatim>\<open>Bool\<close> and \<^verbatim>\<open>Int32\<close>.

  A Go \<^verbatim>\<open>string\<close> is a sequence of bytes: it is a \<^typ>\<open>string\<close> here, one
  \<^typ>\<open>char\<close> per byte. \<^verbatim>\<open>int64\<close> offsets are natural numbers: every offset of
  the program is the sum of unsigned header fields, and a read at or beyond the end of
  the byte source fails, so no offset reaches \<open>2^63\<close> on a source shorter than
  \<open>2^62\<close> bytes. Fixed-width header fields are words and wrap as in Go.
\<close>

type_synonym byte = "8 word"
type_synonym uint8 = "8 word"
type_synonym uint16 = "16 word"
type_synonym uint32 = "32 word"

text \<open>The two errors \<^verbatim>\<open>binary.Read\<close> returns on a short source.\<close>

datatype error = EOF | ErrUnexpectedEOF

text \<open>Run-time panics of the program: an index out of range, a nil pointer dereference.\<close>

datatype panic = IndexOutOfRange | NilDereference

text \<open>
  How a call ends: it returns a value, it panics, or the fuel of a loop with no
  bound of its own is used up.
\<close>

datatype 'a exec = Done 'a | Panic panic | OutOfFuel

fun exec_bind :: "'a exec \<Rightarrow> ('a \<Rightarrow> 'b exec) \<Rightarrow> 'b exec" where
  "exec_bind (Done x) k = k x"
| "exec_bind (Panic p) k = Panic p"
| "exec_bind OutOfFuel k = OutOfFuel"

lemma exec_bind_cong [fundef_cong]:
  "m = m' \<Longrightarrow> (\<And>x. m' = Done x \<Longrightarrow> k x = k' x) \<Longrightarrow> exec_bind m k = exec_bind m' k'"
  by (cases m') auto

definition byte_of_char :: "char \<Rightarrow> byte" where
  "byte_of_char c = of_char c"

definition char_of_byte :: "byte \<Rightarrow> char" where
  "char_of_byte b = char_of (unat b)"

subsection \<open>Little-endian integers\<close>

fun of_le :: "byte list \<Rightarrow> 'a::len word" where
  "of_le [] = 0"
| "of_le (b # bs) = ucast b OR push_bit 8 (of_le bs)"

definition u8_at :: "byte list \<Rightarrow> nat \<Rightarrow> uint8" where
  "u8_at bs i = of_le (take 1 (drop i bs))"

definition u16_at :: "byte list \<Rightarrow> nat \<Rightarrow> uint16" where
  "u16_at bs i = of_le (take 2 (drop i bs))"

definition u32_at :: "byte list \<Rightarrow> nat \<Rightarrow> uint32" where
  "u32_at bs i = of_le (take 4 (drop i bs))"

text \<open>A slice of \<open>n\<close> integers of \<open>w\<close> bytes each, decoded from \<open>n * w\<close> bytes.\<close>

fun le_slice :: "nat \<Rightarrow> nat \<Rightarrow> byte list \<Rightarrow> 'a::len word list" where
  "le_slice w 0 bs = []"
| "le_slice w (Suc n) bs = of_le (take w bs) # le_slice w n (drop w bs)"

subsection \<open>io.SectionReader and binary.Read\<close>

text \<open>
  A \<^verbatim>\<open>SectionReader\<close> is a window \<open>[sr_base, sr_limit)\<close> of a byte source with a
  read position \<open>sr_off\<close>. A section reader over a section reader is kept as its
  window over the underlying bytes: reading through both clips at both limits and at
  the end of the source. The caller's \<^verbatim>\<open>io.ReaderAt\<close> is a finite byte sequence.
\<close>

record SectionReader =
  sr_r :: "byte list"
  sr_base :: nat
  sr_off :: nat
  sr_limit :: nat

definition maxInt64 :: nat where
  "maxInt64 = 2 ^ 63 - 1"

definition ReaderAt :: "byte list \<Rightarrow> SectionReader" where
  "ReaderAt bs = \<lparr>sr_r = bs, sr_base = 0, sr_off = 0, sr_limit = maxInt64\<rparr>"

definition NewSectionReader :: "SectionReader \<Rightarrow> nat \<Rightarrow> nat \<Rightarrow> SectionReader" where
  "NewSectionReader r off n =
     (let remaining = (if off \<le> maxInt64 - n then n + off else maxInt64)
      in \<lparr>sr_r = sr_r r, sr_base = sr_base r + off, sr_off = sr_base r + off,
          sr_limit = min (sr_limit r) (sr_base r + remaining)\<rparr>)"

text \<open>\<^verbatim>\<open>Seek(offset, os.SEEK_SET)\<close> with \<open>offset \<ge> 0\<close>: it never fails.\<close>

definition Seek :: "SectionReader \<Rightarrow> nat \<Rightarrow> SectionReader" where
  "Seek sr offset = sr\<lparr>sr_off := sr_base sr + offset\<rparr>"

text \<open>The bytes left between the read position and the end of the window.\<close>

definition avail :: "SectionReader \<Rightarrow> nat" where
  "avail sr = min (sr_limit sr) (length (sr_r sr)) - sr_off sr"

text \<open>
  \<^verbatim>\<open>binary.Read\<close> of a value of \<open>n\<close> bytes is \<^verbatim>\<open>io.ReadFull\<close> of \<open>n\<close>
  bytes: all of them, or \<^verbatim>\<open>io.EOF\<close> when none is left, or
  \<^verbatim>\<open>io.ErrUnexpectedEOF\<close> when fewer are; a short read still moves the position.
  A value of no bytes (an empty slice) is read with no error.
\<close>

definition binary_Read :: "SectionReader \<Rightarrow> nat \<Rightarrow> (error + byte list) \<times> SectionReader" where
  "binary_Read sr n =
     (if n = 0 then (Inr [], sr)
      else if n \<le> avail sr
        then (Inr (take n (drop (sr_off sr) (sr_r sr))), sr\<lparr>sr_off := sr_off sr + n\<rparr>)
      else if avail sr = 0 then (Inl EOF, sr)
      else (Inl ErrUnexpectedEOF, sr\<lparr>sr_off := sr_off sr + avail sr\<rparr>))"

text \<open>
  Where the program drops the error of \<^verbatim>\<open>binary.Read\<close>, the value read into keeps
  its zero value on a failed read.
\<close>

definition or_zero :: "'a \<Rightarrow> (byte list \<Rightarrow> 'a) \<Rightarrow> error + byte list \<Rightarrow> 'a" where
  "or_zero z dec r = (case r of Inl e \<Rightarrow> z | Inr bs \<Rightarrow> dec bs)"

section \<open>Data model\<close>

definition RES_NULL_TYPE :: uint16 where "RES_NULL_TYPE = 0x0000"
definition RES_STRING_POOL_TYPE :: uint16 where "RES_STRING_POOL_TYPE = 0x0001"
definition RES_TABLE_TYPE :: uint16 where "RES_TABLE_TYPE = 0x0002"
definition RES_XML_TYPE :: uint16 where "RES_XML_TYPE = 0x0003"
definition RES_XML_START_NAMESPACE_TYPE :: uint16 where "RES_XML_START_NAMESPACE_TYPE = 0x0100"
definition RES_XML_END_NAMESPACE_TYPE :: uint16 where "RES_XML_END_NAMESPACE_TYPE = 0x0101"
definition RES_XML_START_ELEMENT_TYPE :: uint16 where "RES_XML_START_ELEMENT_TYPE = 0x0102"
definition RES_XML_END_ELEMENT_TYPE :: uint16 where "RES_XML_END_ELEMENT_TYPE = 0x0103"
definition RES_XML_CDATA_TYPE :: uint16 where "RES_XML_CDATA_TYPE = 0x0104"
definition RES_XML_RESOURCE_MAP_TYPE :: uint16 where "RES_XML_RESOURCE_MAP_TYPE = 0x0180"
definition RES_TABLE_PACKAGE_TYPE :: uint16 where "RES_TABLE_PACKAGE_TYPE = 0x0200"
definition RES_TABLE_TYPE_TYPE :: uint16 where "RES_TABLE_TYPE_TYPE = 0x0201"
definition RES_TABLE_TYPE_SPEC_TYPE :: uint16 where "RES_TABLE_TYPE_SPEC_TYPE = 0x0202"

lemmas chunk_type_defs =
  RES_NULL_TYPE_def RES_STRING_POOL_TYPE_def RES_TABLE_TYPE_def RES_XML_TYPE_def
  RES_XML_START_NAMESPACE_TYPE_def RES_XML_END_NAMESPACE_TYPE_def
  RES_XML_START_ELEMENT_TYPE_def RES_XML_END_ELEMENT_TYPE_def RES_XML_CDATA_TYPE_def
  RES_XML_RESOURCE_MAP_TYPE_def RES_TABLE_PACKAGE_TYPE_def RES_TABLE_TYPE_TYPE_def
  RES_TABLE_TYPE_SPEC_TYPE_def

record ResChunkHeader =
  Type :: uint16
  HeaderSize :: uint16
  Size :: uint32

definition zero_ResChunkHeader :: ResChunkHeader where
  "zero_ResChunkHeader = \<lparr>Type = 0, HeaderSize = 0, Size = 0\<rparr>"

definition dec_ResChunkHeader :: "byte list \<Rightarrow> ResChunkHeader" where
  "dec_ResChunkHeader bs = \<lparr>Type = u16_at bs 0, HeaderSize = u16_at bs 2, Size = u32_at bs 4\<rparr>"

definition UTF8_FLAG :: uint32 where "UTF8_FLAG = push_bit 8 1"

type_synonym ResStringPoolRef = uint32

definition NilResStringPoolRef :: ResStringPoolRef where
  "NilResStringPoolRef = 0xFFFFFFFF"

record ResStringPoolHeader =
  sph_Header :: ResChunkHeader
  StringCount :: uint32
  StyleCount :: uint32
  Flags :: uint32
  StringStart :: uint32
  StylesStart :: uint32

definition zero_ResStringPoolHeader :: ResStringPoolHeader where
  "zero_ResStringPoolHeader = \<lparr>sph_Header = zero_ResChunkHeader, StringCount = 0,
     StyleCount = 0, Flags = 0, StringStart = 0, StylesStart = 0\<rparr>"

definition dec_ResStringPoolHeader :: "byte list \<Rightarrow> ResStringPoolHeader" where
  "dec_ResStringPoolHeader bs = \<lparr>sph_Header = dec_ResChunkHeader bs,
     StringCount = u32_at bs 8, StyleCount = u32_at bs 12, Flags = u32_at bs 16,
     StringStart = u32_at bs 20, StylesStart = u32_at bs 24\<rparr>"

record ResStringPool =
  sp_Header :: ResStringPoolHeader
  Strings :: "string list"
  Styles :: "string list"

record ResXMLTreeNode =
  node_Header :: ResChunkHeader
  LineNumber :: uint32
  Comment :: ResStringPoolRef

definition zero_ResXMLTreeNode :: ResXMLTreeNode where
  "zero_ResXMLTreeNode = \<lparr>node_Header = zero_ResChunkHeader, LineNumber = 0, Comment = 0\<rparr>"

definition dec_ResXMLTreeNode :: "byte list \<Rightarrow> ResXMLTreeNode" where
  "dec_ResXMLTreeNode bs = \<lparr>node_Header = dec_ResChunkHeader bs,
     LineNumber = u32_at bs 8, Comment = u32_at bs 12\<rparr>"

record ResXMLTreeNamespaceExt =
  Prefix :: ResStringPoolRef
  Uri :: ResStringPoolRef

definition zero_ResXMLTreeNamespaceExt :: ResXMLTreeNamespaceExt where
  "zero_ResXMLTreeNamespaceExt = \<lparr>Prefix = 0, Uri = 0\<rparr>"

definition dec_ResXMLTreeNamespaceExt :: "byte list \<Rightarrow> ResXMLTreeNamespaceExt" where
  "dec_ResXMLTreeNamespaceExt bs = \<lparr>Prefix = u32_at bs 0, Uri = u32_at bs 4\<rparr>"

record ResXMLTreeAttrExt =
  ext_NS :: ResStringPoolRef
  ext_Name :: ResStringPoolRef
  AttributeStart :: uint16
  AttributeSize :: uint16
  AttributeCount :: uint16
  IdIndex :: uint16
  ClassIndex :: uint16
  StyleIndex :: uint16

definition zero_ResXMLTreeAttrExt :: ResXMLTreeAttrExt where
  "zero_ResXMLTreeAttrExt = \<lparr>ext_NS = 0, ext_Name = 0, AttributeStart = 0,
     AttributeSize = 0, AttributeCount = 0, IdIndex = 0, ClassIndex = 0, StyleIndex = 0\<rparr>"

definition dec_ResXMLTreeAttrExt :: "byte list \<Rightarrow> ResXMLTreeAttrExt" where
  "dec_ResXMLTreeAttrExt bs = \<lparr>ext_NS = u32_at bs 0, ext_Name = u32_at bs 4,
     AttributeStart = u16_at bs 8, AttributeSize = u16_at bs 10,
     AttributeCount = u16_at bs 12, IdIndex = u16_at bs 14, ClassIndex = u16_at bs 16,
     StyleIndex = u16_at bs 18\<rparr>"

definition TYPE_NULL :: uint8 where "TYPE_NULL = 0x00"
definition TYPE_REFERENCE :: uint8 where "TYPE_REFERENCE = 0x01"
definition TYPE_ATTRIBUTE :: uint8 where "TYPE_ATTRIBUTE = 0x02"
definition TYPE_STRING :: uint8 where "TYPE_STRING = 0x03"
definition TYPE_FLOAT :: uint8 where "TYPE_FLOAT = 0x04"
definition TYPE_DIMENSION :: uint8 where "TYPE_DIMENSION = 0x05"
definition TYPE_FRACTION :: uint8 where "TYPE_FRACTION = 0x06"
definition TYPE_INT_DEC :: uint8 where "TYPE_INT_DEC = 0x10"
definition TYPE_INT_HEX :: uint8 where "TYPE_INT_HEX = 0x11"
definition TYPE_INT_BOOLEAN :: uint8 where "TYPE_INT_BOOLEAN = 0x12"

lemmas data_type_defs =
  TYPE_NULL_def TYPE_REFERENCE_def TYPE_ATTRIBUTE_def TYPE_STRING_def TYPE_FLOAT_def
  TYPE_DIMENSION_def TYPE_FRACTION_def TYPE_INT_DEC_def TYPE_INT_HEX_def
  TYPE_INT_BOOLEAN_def

record ResValue =
  rv_Size :: uint16
  rv_Res0 :: uint8
  DataType :: uint8
  Data :: uint32

definition zero_ResValue :: ResValue where
  "zero_ResValue = \<lparr>rv_Size = 0, rv_Res0 = 0, DataType = 0, Data = 0\<rparr>"

definition dec_ResValue :: "byte list \<Rightarrow> ResValue" where
  "dec_ResValue bs = \<lparr>rv_Size = u16_at bs 0, rv_Res0 = u8_at bs 2, DataType = u8_at bs 3,
     Data = u32_at bs 4\<rparr>"

record ResXMLTreeAttribute =
  attr_NS :: ResStringPoolRef
  attr_Name :: ResStringPoolRef
  RawValue :: ResStringPoolRef
  TypedValue :: ResValue

definition zero_ResXMLTreeAttribute :: ResXMLTreeAttribute where
  "zero_ResXMLTreeAttribute = \<lparr>attr_NS = 0, attr_Name = 0, RawValue = 0,
     TypedValue = zero_ResValue\<rparr>"

definition dec_ResXMLTreeAttribute :: "byte list \<Rightarrow> ResXMLTreeAttribute" where
  "dec_ResXMLTreeAttribute bs = \<lparr>attr_NS = u32_at bs 0, attr_Name = u32_at bs 4,
     RawValue = u32_at bs 8, TypedValue = dec_ResValue (drop 12 bs)\<rparr>"

record ResXMLTreeEndElementExt =
  end_NS :: ResStringPoolRef
  end_Name :: ResStringPoolRef

definition dec_ResXMLTreeEndElementExt :: "byte list \<Rightarrow> ResXMLTreeEndElementExt" where
  "dec_ResXMLTreeEndElementExt bs = \<lparr>end_NS = u32_at bs 0, end_Name = u32_at bs 4\<rparr>"

record ResTableHeader =
  th_Header :: ResChunkHeader
  PackageCount :: uint32

definition zero_ResTableHeader :: ResTableHeader where
  "zero_ResTableHeader = \<lparr>th_Header = zero_ResChunkHeader, PackageCount = 0\<rparr>"

definition dec_ResTableHeader :: "byte list \<Rightarrow> ResTableHeader" where
  "dec_ResTableHeader bs = \<lparr>th_Header = dec_ResChunkHeader bs, PackageCount = u32_at bs 8\<rparr>"

record ResTablePackage =
  pkg_Header :: ResChunkHeader
  pkg_Id :: uint32
  pkg_Name :: "uint16 list"
  pkg_TypeStrings :: uint32
  LastPublicType :: uint32
  pkg_KeyStrings :: uint32
  LastPublicKey :: uint32

definition zero_ResTablePackage :: ResTablePackage where
  "zero_ResTablePackage = \<lparr>pkg_Header = zero_ResChunkHeader, pkg_Id = 0,
     pkg_Name = replicate 128 0, pkg_TypeStrings = 0, LastPublicType = 0,
     pkg_KeyStrings = 0, LastPublicKey = 0\<rparr>"

definition dec_ResTablePackage :: "byte list \<Rightarrow> ResTablePackage" where
  "dec_ResTablePackage bs = \<lparr>pkg_Header = dec_ResChunkHeader bs, pkg_Id = u32_at bs 8,
     pkg_Name = le_slice 2 128 (drop 12 bs), pkg_TypeStrings = u32_at bs 268,
     LastPublicType = u32_at bs 272, pkg_KeyStrings = u32_at bs 276,
     LastPublicKey = u32_at bs 280\<rparr>"

record ResTableConfig =
  cfg_Size :: uint32
  Imsi :: uint32
  Language :: "uint8 list"
  Country :: "uint8 list"
  ScreenType :: uint32
  Input :: uint32
  ScreenSize :: uint32
  Version :: uint32
  ScreenConfig :: uint32

definition dec_ResTableConfig :: "byte list \<Rightarrow> ResTableConfig" where
  "dec_ResTableConfig bs = \<lparr>cfg_Size = u32_at bs 0, Imsi = u32_at bs 4,
     Language = le_slice 1 2 (drop 8 bs), Country = le_slice 1 2 (drop 10 bs),
     ScreenType = u32_at bs 12, Input = u32_at bs 16, ScreenSize = u32_at bs 20,
     Version = u32_at bs 24, ScreenConfig = u32_at bs 28\<rparr>"

record ResTableType =
  tt_Header :: ResChunkHeader
  tt_Id :: uint8
  tt_Res0 :: uint8
  tt_Res1 :: uint16
  tt_EntryCount :: uint32
  EntriesStart :: uint32
  Config :: ResTableConfig

definition dec_ResTableType :: "byte list \<Rightarrow> ResTableType" where
  "dec_ResTableType bs = \<lparr>tt_Header = dec_ResChunkHeader bs, tt_Id = u8_at bs 8,
     tt_Res0 = u8_at bs 9, tt_Res1 = u16_at bs 10, tt_EntryCount = u32_at bs 12,
     EntriesStart = u32_at bs 16, Config = dec_ResTableConfig (drop 20 bs)\<rparr>"

record ResTableEntry =
  te_Size :: uint16
  te_Flags :: uint16
  te_Key :: ResStringPoolRef

definition zero_ResTableEntry :: ResTableEntry where
  "zero_ResTableEntry = \<lparr>te_Size = 0, te_Flags = 0, te_Key = 0\<rparr>"

definition dec_ResTableEntry :: "byte list \<Rightarrow> ResTableEntry" where
  "dec_ResTableEntry bs = \<lparr>te_Size = u16_at bs 0, te_Flags = u16_at bs 2, te_Key = u32_at bs 4\<rparr>"

text \<open>Pointer fields are options: \<open>None\<close> is \<^verbatim>\<open>nil\<close>.\<close>

record TableEntry =
  Key :: "ResTableEntry option"
  Value :: "ResValue option"
  entry_Flags :: uint32

definition zero_TableEntry :: TableEntry where
  "zero_TableEntry = \<lparr>Key = None, Value = None, entry_Flags = 0\<rparr>"

record TableType =
  ty_Header :: "ResTableType option"
  Entries :: "TableEntry list"

record ResTableTypeSpec =
  ts_Header :: ResChunkHeader
  ts_Id :: uint8
  ts_Res0 :: uint8
  ts_Res1 :: uint16
  ts_EntryCount :: uint32

definition dec_ResTableTypeSpec :: "byte list \<Rightarrow> ResTableTypeSpec" where
  "dec_ResTableTypeSpec bs = \<lparr>ts_Header = dec_ResChunkHeader bs, ts_Id = u8_at bs 8,
     ts_Res0 = u8_at bs 9, ts_Res1 = u16_at bs 10, ts_EntryCount = u32_at bs 12\<rparr>"

record TablePackage =
  tp_Header :: ResTablePackage
  TypeStrings :: "ResStringPool option"
  KeyStrings :: "ResStringPool option"
  TableTypes :: "TableType option list"

definition zero_TablePackage :: TablePackage where
  "zero_TablePackage = \<lparr>tp_Header = zero_ResTablePackage, TypeStrings = None,
     KeyStrings = None, TableTypes = []\<rparr>"

text \<open>
  The decoded file. The two namespace maps are association lists from URI to prefix,
  \<open>None\<close> while the Go map is \<^verbatim>\<open>nil\<close>. Go ranges over a map in an order it does
  not fix; the model ranges in the order of first insertion, which is one of them.
\<close>

record File =
  stringPool :: "ResStringPool option"
  resourceMap :: "uint32 list"
  notPrecessedNS :: "(ResStringPoolRef \<times> ResStringPoolRef) list option"
  namespaces :: "(ResStringPoolRef \<times> ResStringPoolRef) list option"
  XMLBuffer :: string
  tablePackages :: "TablePackage list"

definition new_File :: File where
  "new_File = \<lparr>stringPool = None, resourceMap = [], notPrecessedNS = None,
     namespaces = None, XMLBuffer = [], tablePackages = []\<rparr>"

section \<open>Library functions the decoder calls\<close>

subsection \<open>unicode/utf16 and the conversion of runes to a string\<close>

definition RuneError :: nat where "RuneError = 0xFFFD"

text \<open>\<^verbatim>\<open>utf16.DecodeRune\<close> on a valid surrogate pair.\<close>

definition utf16_DecodeRune :: "uint16 \<Rightarrow> uint16 \<Rightarrow> nat" where
  "utf16_DecodeRune r1 r2 = (unat r1 - 0xD800) * 1024 + (unat r2 - 0xDC00) + 0x10000"

text \<open>
  \<^verbatim>\<open>utf16.Decode\<close>: a code unit outside the surrogate range is its own code point,
  a high surrogate followed by a low one is one code point, any other surrogate is
  replaced by U+FFFD.
\<close>

fun utf16_Decode :: "uint16 list \<Rightarrow> nat list" where
  "utf16_Decode [] = []"
| "utf16_Decode [r] = (if r < 0xD800 \<or> 0xE000 \<le> r then [unat r] else [RuneError])"
| "utf16_Decode (r # r2 # rs) =
     (if r < 0xD800 \<or> 0xE000 \<le> r then unat r # utf16_Decode (r2 # rs)
      else if 0xD800 \<le> r \<and> r < 0xDC00 \<and> 0xDC00 \<le> r2 \<and> r2 < 0xE000
        then utf16_DecodeRune r r2 # utf16_Decode rs
      else RuneError # utf16_Decode (r2 # rs))"

text \<open>The UTF-8 encoding of one rune, as the conversion \<^verbatim>\<open>string([]rune)\<close> writes it.\<close>

definition utf8_EncodeRune :: "nat \<Rightarrow> string" where
  "utf8_EncodeRune r =
     (if r < 0x80 then [char_of r]
      else if r < 0x800 then [char_of (0xC0 + r div 64), char_of (0x80 + r mod 64)]
      else if (0xD800 \<le> r \<and> r < 0xE000) \<or> 0x10FFFF < r
        then [char_of (0xEF :: nat), char_of (0xBF :: nat), char_of (0xBD :: nat)]
      else if r < 0x10000
        then [char_of (0xE0 + r div 4096), char_of (0x80 + (r div 64) mod 64),
              char_of (0x80 + r mod 64)]
      else [char_of (0xF0 + r div 262144), char_of (0x80 + (r div 4096) mod 64),
            char_of (0x80 + (r div 64) mod 64), char_of (0x80 + r mod 64)])"

definition string_of_runes :: "nat list \<Rightarrow> string" where
  "string_of_runes rs = concat (map utf8_EncodeRune rs)"

subsection \<open>unicode/utf8.DecodeRune\<close>

text \<open>
  The rune at the head of a byte sequence and its width; an invalid or truncated
  encoding is \<open>(RuneError, 1)\<close>. The second byte of a sequence has the range
  \<^verbatim>\<open>acceptRanges\<close> gives for its first byte.
\<close>

definition contb :: "nat \<Rightarrow> bool" where
  "contb b = (0x80 \<le> b \<and> b \<le> 0xBF)"

fun utf8_DecodeRune :: "nat list \<Rightarrow> nat \<times> nat" where
  "utf8_DecodeRune [] = (RuneError, 0)"
| "utf8_DecodeRune (p0 # ps) =
     (if p0 < 0x80 then (p0, 1)
      else if p0 < 0xC2 \<or> 0xF4 < p0 then (RuneError, 1)
      else
        (let sz = (if p0 < 0xE0 then 2 else if p0 < 0xF0 then 3 else 4 :: nat);
             lo = (if p0 = 0xE0 then 0xA0 else if p0 = 0xF0 then 0x90 else 0x80 :: nat);
             hi = (if p0 = 0xED then 0x9F else if p0 = 0xF4 then 0x8F else 0xBF :: nat)
         in if Suc (length ps) < sz then (RuneError, 1)
            else
              (let b1 = ps ! 0 in
               if b1 < lo \<or> hi < b1 then (RuneError, 1)
               else if sz \<le> 2 then ((p0 mod 32) * 64 + b1 mod 64, 2)
               else
                 (let b2 = ps ! 1 in
                  if \<not> contb b2 then (RuneError, 1)
                  else if sz \<le> 3
                    then ((p0 mod 16) * 4096 + (b1 mod 64) * 64 + b2 mod 64, 3)
                  else
                    (let b3 = ps ! 2 in
                     if \<not> contb b3 then (RuneError, 1)
                     else ((p0 mod 8) * 262144 + (b1 mod 64) * 4096 + (b2 mod 64) * 64
                             + b3 mod 64, 4))))))"

subsection \<open>encoding/xml.Escape\<close>

definition isInCharacterRange :: "nat \<Rightarrow> bool" where
  "isInCharacterRange r =
     (r = 0x09 \<or> r = 0x0A \<or> r = 0x0D \<or> (0x20 \<le> r \<and> r \<le> 0xD7FF)
      \<or> (0xE000 \<le> r \<and> r \<le> 0xFFFD) \<or> (0x10000 \<le> r \<and> r \<le> 0x10FFFF))"

text \<open>The replacement of one rune of width \<open>w\<close>, or \<open>None\<close> when it is copied as it is.\<close>

definition xml_esc :: "nat \<Rightarrow> nat \<Rightarrow> string option" where
  "xml_esc r w =
     (if r = 0x22 then Some ''&#34;''
      else if r = 0x27 then Some ''&#39;''
      else if r = 0x26 then Some ''&amp;''
      else if r = 0x3C then Some ''&lt;''
      else if r = 0x3E then Some ''&gt;''
      else if r = 0x09 then Some ''&#x9;''
      else if r = 0x0A then Some ''&#xA;''
      else if r = 0x0D then Some ''&#xD;''
      else if \<not> isInCharacterRange r \<or> (r = RuneError \<and> w = 1)
        then Some [char_of (0xEF :: nat), char_of (0xBF :: nat), char_of (0xBD :: nat)]
      else None)"

function xml_Escape :: "string \<Rightarrow> string" where
  "xml_Escape [] = []"
| "xml_Escape (c # cs) =
     (let (r, w) = utf8_DecodeRune (map of_char (c # cs))
      in (case xml_esc r w of Some e \<Rightarrow> e | None \<Rightarrow> take w (c # cs))
         @ xml_Escape (drop (w - 1) cs))"
  by pat_completeness auto
termination
  by (relation "measure length") auto

subsection \<open>fmt verbs\<close>

text \<open>\<^verbatim>\<open>%d\<close> of an unsigned integer.\<close>

fun fmt_d :: "nat \<Rightarrow> string" where
  "fmt_d n = (if n < 10 then [char_of (48 + n)]
              else fmt_d (n div 10) @ [char_of (48 + n mod 10)])"

definition hex_digit :: "nat \<Rightarrow> char" where
  "hex_digit d = (if d < 10 then char_of (48 + d) else char_of (55 + d))"

text \<open>\<^verbatim>\<open>%08X\<close> of a \<^verbatim>\<open>uint32\<close>: eight upper-case hexadecimal digits.\<close>

definition fmt_08X :: "uint32 \<Rightarrow> string" where
  "fmt_08X x = map (\<lambda>i. hex_digit (unat (drop_bit (4 * i) x AND 0xF))) [7, 6, 5, 4, 3, 2, 1, 0]"

section \<open>The decoder\<close>

subsection \<open>GetString\<close>

definition GetString :: "File \<Rightarrow> ResStringPoolRef \<Rightarrow> string exec" where
  "GetString f ref =
     (if ref = NilResStringPoolRef then Done []
      else (case stringPool f of
              None \<Rightarrow> Panic NilDereference
            | Some sp \<Rightarrow>
                if unat ref < length (Strings sp) then Done (Strings sp ! unat ref)
                else Panic IndexOutOfRange))"

subsection \<open>String pool\<close>

text \<open>
  \<^verbatim>\<open>ReadUTF16\<close> and \<^verbatim>\<open>ReadUTF8\<close> seek before they read, and every later use of
  the reader they are given seeks first, so they return their result only.
\<close>

definition ReadUTF16 :: "SectionReader \<Rightarrow> nat \<Rightarrow> error + string" where
  "ReadUTF16 sr0 offset =
     (let sr = Seek sr0 offset in
      case binary_Read sr 2 of
        (Inl err, sr) \<Rightarrow> Inl err
      | (Inr b1, sr) \<Rightarrow>
          (let first = (of_le b1 :: uint16) in
           case (if first AND 0x8000 \<noteq> 0
                 then (case binary_Read sr 2 of
                         (Inl err, sr) \<Rightarrow> Inl err
                       | (Inr b2, sr) \<Rightarrow>
                           Inr (unat (first AND 0x7FFF) * 65536 + unat (of_le b2 :: uint16), sr))
                 else Inr (unat first, sr)) of
             Inl err \<Rightarrow> Inl err
           | Inr (sz, sr) \<Rightarrow>
               (case binary_Read sr (2 * sz) of
                  (Inl err, sr) \<Rightarrow> Inl err
                | (Inr buf, sr) \<Rightarrow> Inr (string_of_runes (utf16_Decode (le_slice 2 sz buf))))))"

definition ReadUTF8 :: "SectionReader \<Rightarrow> nat \<Rightarrow> error + string" where
  "ReadUTF8 sr0 offset =
     (let sr = Seek sr0 offset in
      case binary_Read sr 1 of
        (Inl err, sr) \<Rightarrow> Inl err
      | (Inr b1, sr) \<Rightarrow>
          (let first = (of_le b1 :: uint8) in
           case (if first AND 0x80 \<noteq> 0
                 then (case binary_Read sr 1 of
                         (Inl err, sr) \<Rightarrow> Inl err
                       | (Inr b2, sr) \<Rightarrow>
                           Inr (unat (first AND 0x7F) * 256 + unat (of_le b2 :: uint8), sr))
                 else Inr (unat first, sr)) of
             Inl err \<Rightarrow> Inl err
           | Inr (sz, sr) \<Rightarrow>
               (case binary_Read sr sz of
                  (Inl err, sr) \<Rightarrow> Inl err
                | (Inr buf, sr) \<Rightarrow> Inr (map char_of_byte buf))))"

text \<open>
  The two loops of \<^verbatim>\<open>ReadStringPool\<close> over the start offsets: the strings decoded
  so far, or the first error. The sum of the two \<^verbatim>\<open>uint32\<close> offsets wraps.
\<close>

fun read_strings :: "SectionReader \<Rightarrow> uint32 \<Rightarrow> uint32 \<Rightarrow> uint32 list \<Rightarrow> error + string list" where
  "read_strings sr flags base [] = Inr []"
| "read_strings sr flags base (start # starts) =
     (case (if flags AND UTF8_FLAG = 0 then ReadUTF16 sr (unat (base + start))
            else ReadUTF8 sr (unat (base + start))) of
        Inl err \<Rightarrow> Inl err
      | Inr str \<Rightarrow>
          (case read_strings sr flags base starts of
             Inl err \<Rightarrow> Inl err
           | Inr strs \<Rightarrow> Inr (str # strs)))"

text \<open>
  A slice of \<open>n\<close> \<^verbatim>\<open>uint32\<close> read with the error dropped: all zero when the read
  fails.
\<close>

definition read_uint32s :: "SectionReader \<Rightarrow> nat \<Rightarrow> uint32 list \<times> SectionReader" where
  "read_uint32s sr n =
     (case binary_Read sr (4 * n) of (r, sr') \<Rightarrow> (or_zero (replicate n 0) (le_slice 4 n) r, sr'))"

definition ReadStringPool :: "SectionReader \<Rightarrow> error + ResStringPool" where
  "ReadStringPool sr =
     (case binary_Read sr 28 of (r, sr) \<Rightarrow>
        (let header = or_zero zero_ResStringPoolHeader dec_ResStringPoolHeader r in
         case read_uint32s sr (unat (StringCount header)) of (stringStarts, sr) \<Rightarrow>
         case read_uint32s sr (unat (StyleCount header)) of (styleStarts, sr) \<Rightarrow>
           (case read_strings sr (Flags header) (StringStart header) stringStarts of
              Inl err \<Rightarrow> Inl err
            | Inr strings \<Rightarrow>
                (case read_strings sr (Flags header) (StylesStart header) styleStarts of
                   Inl err \<Rightarrow> Inl err
                 | Inr styles \<Rightarrow>
                     Inr \<lparr>sp_Header = header, Strings = strings, Styles = styles\<rparr>))))"

subsection \<open>Resource map\<close>

definition ReadResourceMap :: "SectionReader \<Rightarrow> error + uint32 list" where
  "ReadResourceMap sr =
     (case binary_Read sr 8 of (r, sr) \<Rightarrow>
        (let header = or_zero zero_ResChunkHeader dec_ResChunkHeader r;
             count = unat ((Size header - ucast (HeaderSize header)) div 4)
         in case binary_Read sr (4 * count) of
              (Inl err, sr) \<Rightarrow> Inl err
            | (Inr bs, sr) \<Rightarrow> Inr (le_slice 4 count bs)))"

subsection \<open>Namespaces\<close>

text \<open>
  Indexing a Go map with a missing key (or a \<^verbatim>\<open>nil\<close> map) gives the zero value;
  deleting from a \<^verbatim>\<open>nil\<close> map does nothing.
\<close>

definition map_index :: "(ResStringPoolRef \<times> ResStringPoolRef) list option \<Rightarrow> ResStringPoolRef \<Rightarrow> ResStringPoolRef" where
  "map_index m k = (case m of None \<Rightarrow> 0
                    | Some al \<Rightarrow> (case map_of al k of None \<Rightarrow> 0 | Some v \<Rightarrow> v))"

fun al_store :: "('k \<times> 'v) list \<Rightarrow> 'k \<Rightarrow> 'v \<Rightarrow> ('k \<times> 'v) list" where
  "al_store [] k v = [(k, v)]"
| "al_store ((k', v') # al) k v = (if k' = k then (k, v) # al else (k', v') # al_store al k v)"

text \<open>\<^verbatim>\<open>if m == nil { m = make(...) }; m[k] = v\<close>\<close>

definition map_store :: "('k \<times> 'v) list option \<Rightarrow> 'k \<Rightarrow> 'v \<Rightarrow> ('k \<times> 'v) list option" where
  "map_store m k v = Some (al_store (case m of None \<Rightarrow> [] | Some al \<Rightarrow> al) k v)"

definition map_delete :: "('k \<times> 'v) list option \<Rightarrow> 'k \<Rightarrow> ('k \<times> 'v) list option" where
  "map_delete m k = map_option (filter (\<lambda>kv. fst kv \<noteq> k)) m"

definition ReadStartNamespace :: "File \<Rightarrow> SectionReader \<Rightarrow> File \<times> error option" where
  "ReadStartNamespace f sr =
     (case binary_Read sr 16 of (r, sr) \<Rightarrow>
        (let header = or_zero zero_ResXMLTreeNode dec_ResXMLTreeNode r;
             sr = Seek sr (unat (HeaderSize (node_Header header)))
         in case binary_Read sr 8 of (r, sr) \<Rightarrow>
           (let namespace = or_zero zero_ResXMLTreeNamespaceExt dec_ResXMLTreeNamespaceExt r;
                f = f\<lparr>notPrecessedNS := map_store (notPrecessedNS f) (Uri namespace) (Prefix namespace)\<rparr>;
                f = f\<lparr>namespaces := map_store (namespaces f) (Uri namespace) (Prefix namespace)\<rparr>
            in (f, None))))"

definition ReadEndNamespace :: "File \<Rightarrow> SectionReader \<Rightarrow> File \<times> error option" where
  "ReadEndNamespace f sr =
     (case binary_Read sr 16 of (r, sr) \<Rightarrow>
        (let header = or_zero zero_ResXMLTreeNode dec_ResXMLTreeNode r;
             sr = Seek sr (unat (HeaderSize (node_Header header)))
         in case binary_Read sr 8 of (r, sr) \<Rightarrow>
           (let namespace = or_zero zero_ResXMLTreeNamespaceExt dec_ResXMLTreeNamespaceExt r
            in (f\<lparr>namespaces := map_delete (namespaces f) (Uri namespace)\<rparr>, None))))"

subsection \<open>Elements\<close>

definition AddNamespace :: "File \<Rightarrow> ResStringPoolRef \<Rightarrow> ResStringPoolRef \<Rightarrow> string exec" where
  "AddNamespace f ns name =
     (if ns \<noteq> NilResStringPoolRef
      then exec_bind (GetString f (map_index (namespaces f) ns)) (\<lambda>prefix.
           exec_bind (GetString f name) (\<lambda>n. Done (prefix @ '':'' @ n)))
      else GetString f name)"

definition Fprint :: "File \<Rightarrow> string \<Rightarrow> File" where
  "Fprint f s = f\<lparr>XMLBuffer := XMLBuffer f @ s\<rparr>"

text \<open>The loop over the namespaces not yet written, as \<open>(uri, prefix)\<close> pairs.\<close>

fun xmlns_loop :: "File \<Rightarrow> (ResStringPoolRef \<times> ResStringPoolRef) list \<Rightarrow> File exec" where
  "xmlns_loop f [] = Done f"
| "xmlns_loop f (up # rest) =
     exec_bind (GetString f (snd up)) (\<lambda>prefix.
     exec_bind (GetString (Fprint f ('' xmlns:'' @ prefix @ [CHR ''='', CHR 0x22])) (fst up)) (\<lambda>uri.
       xmlns_loop
         (Fprint (Fprint (Fprint f ('' xmlns:'' @ prefix @ [CHR ''='', CHR 0x22])) (xml_Escape uri))
            [CHR 0x22])
         rest))"

text \<open>The text of an attribute's value: the body of the attribute loop up to the output.\<close>

definition attr_value :: "File \<Rightarrow> ResXMLTreeAttribute \<Rightarrow> string exec" where
  "attr_value f attr =
     (if RawValue attr \<noteq> NilResStringPoolRef then GetString f (RawValue attr)
      else
        (let data = Data (TypedValue attr); dt = DataType (TypedValue attr)
         in Done (if dt = TYPE_NULL then []
                  else if dt = TYPE_REFERENCE then ''@0x'' @ fmt_08X data
                  else if dt = TYPE_INT_DEC then fmt_d (unat data)
                  else if dt = TYPE_INT_HEX then ''0x'' @ fmt_08X data
                  else if dt = TYPE_INT_BOOLEAN then (if data \<noteq> 0 then ''true'' else ''false'')
                  else ''@0x'' @ fmt_08X data)))"

text \<open>
  The attribute loop, by the number of attributes still to read. Each round seeks to
  \<open>offset\<close> first, so the reader is not threaded.
\<close>

fun attributes_loop :: "File \<Rightarrow> SectionReader \<Rightarrow> nat \<Rightarrow> nat \<Rightarrow> nat \<Rightarrow> File exec" where
  "attributes_loop f sr attributeSize offset 0 = Done f"
| "attributes_loop f sr attributeSize offset (Suc k) =
     (case binary_Read (Seek sr offset) 20 of (r, sr') \<Rightarrow>
        (let attr = or_zero zero_ResXMLTreeAttribute dec_ResXMLTreeAttribute r in
         exec_bind (attr_value f attr) (\<lambda>v.
         exec_bind (AddNamespace f (attr_NS attr) (attr_Name attr)) (\<lambda>qname.
           attributes_loop
             (Fprint (Fprint (Fprint f ('' '' @ qname @ [CHR ''='', CHR 0x22])) (xml_Escape v))
                [CHR 0x22])
             sr attributeSize (offset + attributeSize) k))))"

definition ReadStartElement :: "File \<Rightarrow> SectionReader \<Rightarrow> (File \<times> error option) exec" where
  "ReadStartElement f sr =
     (case binary_Read sr 16 of (r, sr) \<Rightarrow>
        (let header = or_zero zero_ResXMLTreeNode dec_ResXMLTreeNode r;
             sr = Seek sr (unat (HeaderSize (node_Header header)))
         in case binary_Read sr 20 of (r, sr) \<Rightarrow>
           (let ext = or_zero zero_ResXMLTreeAttrExt dec_ResXMLTreeAttrExt r in
            exec_bind (AddNamespace f (ext_NS ext) (ext_Name ext)) (\<lambda>qname.
            exec_bind (case notPrecessedNS (Fprint f (''<'' @ qname)) of
                         None \<Rightarrow> Done (Fprint f (''<'' @ qname))
                       | Some ns \<Rightarrow>
                           exec_bind (xmlns_loop (Fprint f (''<'' @ qname)) ns) (\<lambda>f.
                             Done (f\<lparr>notPrecessedNS := None\<rparr>))) (\<lambda>f.
            exec_bind (attributes_loop f sr (unat (AttributeSize ext))
                         (unat (AttributeStart ext + HeaderSize (node_Header header)))
                         (unat (AttributeCount ext))) (\<lambda>f.
              Done (Fprint f ''>'', None)))))))"

definition ReadEndElement :: "File \<Rightarrow> SectionReader \<Rightarrow> (File \<times> error option) exec" where
  "ReadEndElement f sr =
     (case binary_Read sr 16 of
        (Inl err, sr) \<Rightarrow> Done (f, Some err)
      | (Inr bs, sr) \<Rightarrow>
          (let header = dec_ResXMLTreeNode bs;
               sr = Seek sr (unat (HeaderSize (node_Header header)))
           in case binary_Read sr 8 of
                (Inl err, sr) \<Rightarrow> Done (f, Some err)
              | (Inr bs, sr) \<Rightarrow>
                  (let ext = dec_ResXMLTreeEndElementExt bs in
                   exec_bind (AddNamespace f (end_NS ext) (end_Name ext)) (\<lambda>qname.
                     Done (Fprint f (''</'' @ qname @ ''>''), None)))))"

subsection \<open>Resource table\<close>

text \<open>One round of the entry loop of \<^verbatim>\<open>ReadTableType\<close>; both reads drop their error.\<close>

definition read_entry :: "SectionReader \<Rightarrow> uint32 \<Rightarrow> uint32 \<Rightarrow> TableEntry" where
  "read_entry sr entriesStart index =
     (if index = 0xFFFFFFFF then zero_TableEntry
      else
        (case binary_Read (Seek sr (unat (entriesStart + index))) 8 of (r, sr) \<Rightarrow>
           (let key = or_zero zero_ResTableEntry dec_ResTableEntry r in
            case binary_Read sr 8 of (r, sr) \<Rightarrow>
              (let val = or_zero zero_ResValue dec_ResValue r
               in \<lparr>Key = Some key, Value = Some val, entry_Flags = 0\<rparr>))))"

definition ReadTableType :: "SectionReader \<Rightarrow> error + TableType" where
  "ReadTableType sr =
     (case binary_Read sr 52 of
        (Inl err, sr) \<Rightarrow> Inl err
      | (Inr bs, sr) \<Rightarrow>
          (let header = dec_ResTableType bs;
               sr = Seek sr (unat (HeaderSize (tt_Header header)))
           in case binary_Read sr (4 * unat (tt_EntryCount header)) of
                (Inl err, sr) \<Rightarrow> Inl err
              | (Inr bs, sr) \<Rightarrow>
                  (let entryIndexes = le_slice 4 (unat (tt_EntryCount header)) bs
                   in Inr \<lparr>ty_Header = Some header,
                           Entries = map (read_entry sr (EntriesStart header)) entryIndexes\<rparr>)))"

definition ReadTableTypeSpec :: "SectionReader \<Rightarrow> error + uint32 list" where
  "ReadTableTypeSpec sr =
     (case binary_Read sr 16 of
        (Inl err, sr) \<Rightarrow> Inl err
      | (Inr bs, sr) \<Rightarrow>
          (let header = dec_ResTableTypeSpec bs;
               sr = Seek sr (unat (HeaderSize (ts_Header header)))
           in case binary_Read sr (4 * unat (ts_EntryCount header)) of
                (Inl err, sr) \<Rightarrow> Inl err
              | (Inr bs, sr) \<Rightarrow> Inr (le_slice 4 (unat (ts_EntryCount header)) bs)))"

text \<open>
  The loop of \<^verbatim>\<open>ReadTablePackage\<close> over the chunks of a package. Nothing bounds the
  number of its rounds, so it runs on fuel, one unit a round.
\<close>

fun package_loop :: "nat \<Rightarrow> SectionReader \<Rightarrow> TablePackage \<Rightarrow> nat \<Rightarrow> nat \<Rightarrow> (error + TablePackage) exec" where
  "package_loop 0 sr tablePackage offset sz = OutOfFuel"
| "package_loop (Suc n) sr tablePackage offset sz =
     (if offset < sz then
        (case binary_Read (Seek sr offset) 8 of
           (Inl err, sr) \<Rightarrow> Done (Inl err)
         | (Inr bs, sr) \<Rightarrow>
             (let chunkHeader = dec_ResChunkHeader bs;
                  chunkReader = NewSectionReader sr offset (unat (Size chunkHeader));
                  sr = Seek sr offset
              in case (if Type chunkHeader = RES_TABLE_TYPE_TYPE then
                         (case ReadTableType chunkReader of
                            Inl err \<Rightarrow>
                              (tablePackage\<lparr>TableTypes := TableTypes tablePackage @ [None]\<rparr>, Some err)
                          | Inr tableType \<Rightarrow>
                              (tablePackage\<lparr>TableTypes := TableTypes tablePackage @ [Some tableType]\<rparr>, None))
                       else if Type chunkHeader = RES_TABLE_TYPE_SPEC_TYPE then
                         (case ReadTableTypeSpec chunkReader of
                            Inl err \<Rightarrow> (tablePackage, Some err)
                          | Inr flags \<Rightarrow> (tablePackage, None))
                       else (tablePackage, None)) of
                   (tablePackage, Some err) \<Rightarrow> Done (Inl err)
                 | (tablePackage, None) \<Rightarrow>
                     package_loop n sr tablePackage (offset + unat (Size chunkHeader)) sz))
      else Done (Inr tablePackage))"

definition ReadTablePackage :: "nat \<Rightarrow> SectionReader \<Rightarrow> (error + TablePackage) exec" where
  "ReadTablePackage n sr =
     (case binary_Read sr 284 of
        (Inl err, sr) \<Rightarrow> Done (Inl err)
      | (Inr bs, sr) \<Rightarrow>
          (let header = dec_ResTablePackage bs;
               srTypes = NewSectionReader sr (unat (pkg_TypeStrings header))
                           (unat (Size (pkg_Header header) - pkg_TypeStrings header))
           in case ReadStringPool srTypes of
                Inl err \<Rightarrow> Done (Inl err)
              | Inr typeStrings \<Rightarrow>
                  (let srKeys = NewSectionReader sr (unat (pkg_KeyStrings header))
                                  (unat (Size (pkg_Header header) - pkg_KeyStrings header))
                   in case ReadStringPool srKeys of
                        Inl err \<Rightarrow> Done (Inl err)
                      | Inr keyStrings \<Rightarrow>
                          package_loop n sr
                            \<lparr>tp_Header = zero_ResTablePackage, TypeStrings = Some typeStrings,
                              KeyStrings = Some keyStrings, TableTypes = []\<rparr>
                            (unat (HeaderSize (pkg_Header header)))
                            (unat (Size (pkg_Header header))))))"

subsection \<open>Chunks\<close>

text \<open>
  \<^verbatim>\<open>readChunk\<close>, \<^verbatim>\<open>readTable\<close> and \<^verbatim>\<open>readXML\<close> call each other, and nothing
  bounds the depth of the calls or the rounds of the two loops over sub-chunks: they
  run on fuel, one unit a call of \<^verbatim>\<open>readChunk\<close> and a round of a loop. The File is
  returned with the error, since the caller of \<^verbatim>\<open>NewFile\<close> keeps it.

  In \<^verbatim>\<open>readChunk\<close> the counter \<^verbatim>\<open>numTablePackages\<close> is a local variable set to 0
  on every call, so the package is always stored at index 0; its increment is never
  read. The right-hand side \<^verbatim>\<open>*tablePackage\<close> is evaluated before the index.
\<close>

function (sequential) readChunk :: "nat \<Rightarrow> File \<Rightarrow> SectionReader \<Rightarrow> nat \<Rightarrow> (File \<times> (error + ResChunkHeader)) exec"
  and readTable :: "nat \<Rightarrow> File \<Rightarrow> SectionReader \<Rightarrow> (File \<times> error option) exec"
  and readTable_loop :: "nat \<Rightarrow> File \<Rightarrow> SectionReader \<Rightarrow> nat \<Rightarrow> nat \<Rightarrow> (File \<times> error option) exec"
  and readXML :: "nat \<Rightarrow> File \<Rightarrow> SectionReader \<Rightarrow> (File \<times> error option) exec"
  and readXML_loop :: "nat \<Rightarrow> File \<Rightarrow> SectionReader \<Rightarrow> nat \<Rightarrow> nat \<Rightarrow> (File \<times> error option) exec"
where
  "readChunk 0 f r offset = OutOfFuel"
| "readChunk (Suc n) f r offset =
     (let sr = Seek (NewSectionReader r offset (maxInt64 - offset)) 0 in
      case binary_Read sr 8 of
        (Inl err, sr) \<Rightarrow> Done (f, Inl err)
      | (Inr bs, sr) \<Rightarrow>
          (let chunkHeader = dec_ResChunkHeader bs;
               numTablePackages = (0 :: nat);
               sr = Seek sr 0
           in exec_bind
                (if Type chunkHeader = RES_TABLE_TYPE then readTable n f sr
                 else if Type chunkHeader = RES_XML_TYPE then readXML n f sr
                 else if Type chunkHeader = RES_STRING_POOL_TYPE then
                   (case ReadStringPool sr of
                      Inl err \<Rightarrow> Done (f\<lparr>stringPool := None\<rparr>, Some err)
                    | Inr sp \<Rightarrow> Done (f\<lparr>stringPool := Some sp\<rparr>, None))
                 else if Type chunkHeader = RES_XML_RESOURCE_MAP_TYPE then
                   (case ReadResourceMap sr of
                      Inl err \<Rightarrow> Done (f\<lparr>resourceMap := []\<rparr>, Some err)
                    | Inr rm \<Rightarrow> Done (f\<lparr>resourceMap := rm\<rparr>, None))
                 else if Type chunkHeader = RES_XML_START_NAMESPACE_TYPE then
                   Done (ReadStartNamespace f sr)
                 else if Type chunkHeader = RES_XML_END_NAMESPACE_TYPE then
                   Done (ReadEndNamespace f sr)
                 else if Type chunkHeader = RES_XML_START_ELEMENT_TYPE then
                   ReadStartElement f sr
                 else if Type chunkHeader = RES_XML_END_ELEMENT_TYPE then
                   ReadEndElement f sr
                 else if Type chunkHeader = RES_TABLE_PACKAGE_TYPE then
                   exec_bind (ReadTablePackage n sr) (\<lambda>res.
                     case res of
                       Inl err \<Rightarrow> Panic NilDereference
                     | Inr tablePackage \<Rightarrow>
                         if numTablePackages < length (tablePackages f)
                         then Done (f\<lparr>tablePackages :=
                                        (tablePackages f)[numTablePackages := tablePackage]\<rparr>, None)
                         else Panic IndexOutOfRange)
                 else Done (f, None))
                (\<lambda>fe. case fe of
                         (f, Some err) \<Rightarrow> Done (f, Inl err)
                       | (f, None) \<Rightarrow> Done (f, Inr chunkHeader))))"
| "readTable n f sr =
     (case binary_Read sr 12 of (r, sr) \<Rightarrow>
        (let header = or_zero zero_ResTableHeader dec_ResTableHeader r;
             f = f\<lparr>tablePackages := replicate (unat (PackageCount header)) zero_TablePackage\<rparr>
         in readTable_loop n f sr (unat (HeaderSize (th_Header header)))
              (unat (Size (th_Header header)))))"
| "readTable_loop 0 f sr offset sz = OutOfFuel"
| "readTable_loop (Suc n) f sr offset sz =
     (if offset < sz then
        exec_bind (readChunk n f sr offset) (\<lambda>fr.
          case fr of
            (f, Inl err) \<Rightarrow> Done (f, Some err)
          | (f, Inr chunkHeader) \<Rightarrow> readTable_loop n f sr (offset + unat (Size chunkHeader)) sz)
      else Done (f, None))"
| "readXML n f sr =
     (let f = Fprint f ''<?xml version=\"1.0\" encoding=\"utf-8\"?>'' in
      case binary_Read sr 8 of (r, sr) \<Rightarrow>
        (let header = or_zero zero_ResChunkHeader dec_ResChunkHeader r
         in readXML_loop n f sr (unat (HeaderSize header)) (unat (Size header))))"
| "readXML_loop 0 f sr offset sz = OutOfFuel"
| "readXML_loop (Suc n) f sr offset sz =
     (if offset < sz then
        exec_bind (readChunk n f sr offset) (\<lambda>fr.
          case fr of
            (f, Inl err) \<Rightarrow> Done (f, Some err)
          | (f, Inr chunkHeader) \<Rightarrow> readXML_loop n f sr (offset + unat (Size chunkHeader)) sz)
      else Done (f, None))"
  by pat_completeness auto
termination
  by (relation "measure (\<lambda>x. case x of
      Inl (Inl (n, f, r, off)) \<Rightarrow> 2 * n
    | Inl (Inr (n, f, sr)) \<Rightarrow> 2 * n + 1
    | Inr (Inl (n, f, sr, off, sz)) \<Rightarrow> 2 * n
    | Inr (Inr (Inl (n, f, sr))) \<Rightarrow> 2 * n + 1
    | Inr (Inr (Inr (n, f, sr, off, sz))) \<Rightarrow> 2 * n)") simp_all

text \<open>\<^verbatim>\<open>NewFile\<close> drops what \<^verbatim>\<open>readChunk\<close> returns: its error is always \<^verbatim>\<open>nil\<close>.\<close>

definition NewFile :: "nat \<Rightarrow> byte list \<Rightarrow> (File \<times> error option) exec" where
  "NewFile n r = exec_bind (readChunk n new_File (ReaderAt r) 0) (\<lambda>fr. Done (fst fr, None))"

text \<open>What \<^verbatim>\<open>main\<close> prints, and the packages a decode leaves in the File.\<close>

definition decoded_XML :: "nat \<Rightarrow> byte list \<Rightarrow> string exec" where
  "decoded_XML n r = exec_bind (NewFile n r) (\<lambda>fe. Done (XMLBuffer (fst fe)))"

definition decoded_packages :: "nat \<Rightarrow> byte list \<Rightarrow> TablePackage list exec" where
  "decoded_packages n r = exec_bind (NewFile n r) (\<lambda>fe. Done (tablePackages (fst fe)))"

section \<open>Typed-value facades\<close>

text \<open>
  \<^verbatim>\<open>Bool\<close> and \<^verbatim>\<open>Int32\<close> hold the text of an attribute and optional pointers to
  a table and a configuration. \<^verbatim>\<open>IsResID\<close>, \<^verbatim>\<open>ParseResID\<close> and
  \<^verbatim>\<open>TableFile.GetResource\<close> are declared in other files of the package and
  \<^verbatim>\<open>strconv.ParseBool\<close>, \<^verbatim>\<open>strconv.ParseInt\<close> in the library: the accessors
  take them as parameters. An \<^verbatim>\<open>int32\<close> is a 32-bit word read as two's complement.
\<close>

datatype resource_value = BoolValue bool | Uint32Value uint32 | OtherValue

datatype 'e facade_error = External 'e | InvalidType

type_synonym int32 = "32 word"

record ('e, 'id, 't, 'c) externals =
  IsResID :: "string \<Rightarrow> bool"
  ParseResID :: "string \<Rightarrow> 'e + 'id"
  GetResource :: "'t option \<Rightarrow> 'id \<Rightarrow> 'c option \<Rightarrow> ('e + resource_value) exec"
  ParseBool :: "string \<Rightarrow> 'e + bool"
  ParseInt :: "string \<Rightarrow> 64 word \<times> 'e option"

record ('t, 'c) Bool =
  bool_value :: string
  bool_table :: "'t option"
  bool_config :: "'c option"

record ('t, 'c) Int32 =
  int32_value :: string
  int32_table :: "'t option"
  int32_config :: "'c option"

definition Bool_inject :: "('t, 'c) Bool \<Rightarrow> 't option \<Rightarrow> 'c option \<Rightarrow> ('t, 'c) Bool" where
  "Bool_inject v table config = v\<lparr>bool_table := table, bool_config := config\<rparr>"

definition Int32_inject :: "('t, 'c) Int32 \<Rightarrow> 't option \<Rightarrow> 'c option \<Rightarrow> ('t, 'c) Int32" where
  "Int32_inject v table config = v\<lparr>int32_table := table, int32_config := config\<rparr>"

definition Bool_Bool :: "('e, 'id, 't, 'c) externals \<Rightarrow> ('t, 'c) Bool \<Rightarrow> (bool \<times> 'e facade_error option) exec" where
  "Bool_Bool ext v =
     (if bool_value v = [] then Done (False, None)
      else if \<not> IsResID ext (bool_value v) then
        Done (case ParseBool ext (bool_value v) of
                Inl err \<Rightarrow> (False, Some (External err))
              | Inr b \<Rightarrow> (b, None))
      else
        (case ParseResID ext (bool_value v) of
           Inl err \<Rightarrow> Done (False, Some (External err))
         | Inr resID \<Rightarrow>
             exec_bind (GetResource ext (bool_table v) resID (bool_config v)) (\<lambda>r.
               case r of
                 Inl err \<Rightarrow> Done (False, Some (External err))
               | Inr val \<Rightarrow>
                   (case val of
                      BoolValue ret \<Rightarrow> Done (ret, None)
                    | _ \<Rightarrow> Done (False, Some InvalidType)))))"

definition Int32_Int32 :: "('e, 'id, 't, 'c) externals \<Rightarrow> ('t, 'c) Int32 \<Rightarrow> (int32 \<times> 'e facade_error option) exec" where
  "Int32_Int32 ext v =
     (if int32_value v = [] then Done (0, None)
      else if \<not> IsResID ext (int32_value v) then
        Done (case ParseInt ext (int32_value v) of
                (x, err) \<Rightarrow> (ucast x, map_option External err))
      else
        (case ParseResID ext (int32_value v) of
           Inl err \<Rightarrow> Done (0, Some (External err))
         | Inr resID \<Rightarrow>
             exec_bind (GetResource ext (int32_table v) resID (int32_config v)) (\<lambda>r.
               case r of
                 Inl err \<Rightarrow> Done (0, Some (External err))
               | Inr val \<Rightarrow>
                   (case val of
                      Uint32Value ret \<Rightarrow> Done (ret, None)
                    | _ \<Rightarrow> Done (0, Some InvalidType)))))"

text \<open>Externals that reject every text and panic on every lookup.\<close>

definition failing_externals :: "(unit, 'id, 't, 'c) externals" where
  "failing_externals = \<lparr>IsResID = (\<lambda>s. True), ParseResID = (\<lambda>s. Inl ()),
     GetResource = (\<lambda>t i c. Panic NilDereference), ParseBool = (\<lambda>s. Inl ()),
     ParseInt = (\<lambda>s. (1, Some ()))\<rparr>"

section \<open>Concrete inputs\<close>

text \<open>Little-endian encoders, to write byte sources down chunk by chunk.\<close>

definition u16le :: "uint16 \<Rightarrow> byte list" where
  "u16le x = [ucast x, ucast (drop_bit 8 x)]"

definition u32le :: "uint32 \<Rightarrow> byte list" where
  "u32le x = [ucast x, ucast (drop_bit 8 x), ucast (drop_bit 16 x), ucast (drop_bit 24 x)]"

definition chunk_header :: "uint16 \<Rightarrow> uint16 \<Rightarrow> uint32 \<Rightarrow> byte list" where
  "chunk_header t hs sz = u16le t @ u16le hs @ u32le sz"

text \<open>A pool string in UTF-16: the length, the code units of ASCII text, a terminator.\<close>

definition utf16_string :: "string \<Rightarrow> byte list" where
  "utf16_string s = u16le (of_nat (length s)) @ concat (map (\<lambda>c. [of_char c, 0]) s) @ [0, 0]"

text \<open>
  A pool string in UTF-8 as the format has it: the length in characters, the length
  in bytes, the bytes of ASCII text, a terminator.
\<close>

definition utf8_string :: "string \<Rightarrow> byte list" where
  "utf8_string s = [of_nat (length s), of_nat (length s)] @ map of_char s @ [0]"

text \<open>
  The minimal manifest: a string pool of four UTF-16 strings, the namespace
  \<open>android\<close>, the element \<open>manifest\<close> with the attribute
  \<open>android:versionCode\<close> whose raw value is nil and whose typed value has the given
  data type and data.
\<close>

definition manifest_strings :: "byte list" where
  "manifest_strings =
     chunk_header RES_STRING_POOL_TYPE 28 196 @ u32le 4 @ u32le 0 @ u32le 0 @ u32le 44 @ u32le 0
     @ u32le 0 @ u32le 18 @ u32le 106 @ u32le 126
     @ utf16_string ''android''
     @ utf16_string ''http://schemas.android.com/apk/res/android''
     @ utf16_string ''manifest''
     @ utf16_string ''versionCode''"

definition manifest_xml :: "uint8 \<Rightarrow> uint32 \<Rightarrow> byte list" where
  "manifest_xml dataType data =
     chunk_header RES_XML_TYPE 8 332
     @ manifest_strings
     @ chunk_header RES_XML_START_NAMESPACE_TYPE 16 24 @ u32le 1 @ u32le 0xFFFFFFFF
       @ u32le 0 @ u32le 1
     @ chunk_header RES_XML_START_ELEMENT_TYPE 16 56 @ u32le 1 @ u32le 0xFFFFFFFF
       @ u32le 0xFFFFFFFF @ u32le 2 @ u16le 20 @ u16le 20 @ u16le 1 @ u16le 0 @ u16le 0 @ u16le 0
       @ u32le 1 @ u32le 3 @ u32le 0xFFFFFFFF @ u16le 8 @ [0, dataType] @ u32le data
     @ chunk_header RES_XML_END_ELEMENT_TYPE 16 24 @ u32le 1 @ u32le 0xFFFFFFFF
       @ u32le 0xFFFFFFFF @ u32le 2
     @ chunk_header RES_XML_END_NAMESPACE_TYPE 16 24 @ u32le 1 @ u32le 0xFFFFFFFF
       @ u32le 0 @ u32le 1"

text \<open>
  A resource table of two packages. Each package has its header of 284 bytes and two
  empty string pools; the second has a type chunk with no entries as well.
\<close>

definition empty_pool :: "byte list" where
  "empty_pool = chunk_header RES_STRING_POOL_TYPE 28 28 @ u32le 0 @ u32le 0 @ u32le 0 @ u32le 28
     @ u32le 0"

definition package_header :: "uint32 \<Rightarrow> uint32 \<Rightarrow> byte list" where
  "package_header pid sz = chunk_header RES_TABLE_PACKAGE_TYPE 284 sz @ u32le pid
     @ replicate 256 0 @ u32le 284 @ u32le 0 @ u32le 312 @ u32le 0"

definition type_chunk :: "byte list" where
  "type_chunk = chunk_header RES_TABLE_TYPE_TYPE 52 52 @ [1, 0, 0, 0] @ u32le 0 @ u32le 52
     @ replicate 32 0"

definition two_package_table :: "byte list" where
  "two_package_table = chunk_header RES_TABLE_TYPE 12 744 @ u32le 2
     @ package_header 0x7F 340 @ empty_pool @ empty_pool
     @ package_header 0x01 392 @ empty_pool @ empty_pool @ type_chunk"

text \<open>What the two packages decode to; \<^verbatim>\<open>ReadTablePackage\<close> never stores the header it reads.\<close>

definition decoded_empty_pool :: ResStringPool where
  "decoded_empty_pool =
     \<lparr>sp_Header = \<lparr>sph_Header = \<lparr>Type = 1, HeaderSize = 28, Size = 28\<rparr>, StringCount = 0,
        StyleCount = 0, Flags = 0, StringStart = 28, StylesStart = 0\<rparr>,
      Strings = [], Styles = []\<rparr>"

definition first_package :: TablePackage where
  "first_package = \<lparr>tp_Header = zero_ResTablePackage, TypeStrings = Some decoded_empty_pool,
     KeyStrings = Some decoded_empty_pool, TableTypes = []\<rparr>"

definition second_package :: TablePackage where
  "second_package = first_package\<lparr>TableTypes :=
     [Some \<lparr>ty_Header = Some \<lparr>tt_Header = \<lparr>Type = 0x201, HeaderSize = 52, Size = 52\<rparr>,
        tt_Id = 1, tt_Res0 = 0, tt_Res1 = 0, tt_EntryCount = 0, EntriesStart = 52,
        Config = \<lparr>cfg_Size = 0, Imsi = 0, Language = [0, 0], Country = [0, 0], ScreenType = 0,
          Input = 0, ScreenSize = 0, Version = 0, ScreenConfig = 0\<rparr>\<rparr>, Entries = []\<rparr>]\<rparr>"

text \<open>A string pool in UTF-8 mode (flag \<open>0x100\<close>) with the strings \<open>hello\<close> and \<open>world\<close>.\<close>

definition utf8_pool :: "byte list" where
  "utf8_pool = chunk_header RES_STRING_POOL_TYPE 28 52 @ u32le 2 @ u32le 0 @ u32le 0x100 @ u32le 36
     @ u32le 0 @ u32le 0 @ u32le 8 @ utf8_string ''hello'' @ utf8_string ''world''"

text \<open>What a call returns beside the File.\<close>

definition result_of :: "('s \<times> 'a) exec \<Rightarrow> 'a exec" where
  "result_of m = exec_bind m (\<lambda>x. Done (snd x))"

section \<open>Evaluation\<close>

text \<open>Unfolding one unit of fuel, or one round of a counted loop, at a numeral.\<close>

lemmas le_slice_numeral =
  le_slice.simps(2) [where n = "pred_numeral k" for k, unfolded numeral_eq_Suc [symmetric]]
lemmas attributes_loop_numeral =
  attributes_loop.simps(2) [where k = "pred_numeral k" for k, unfolded numeral_eq_Suc [symmetric]]
lemmas readChunk_numeral =
  readChunk.simps(2) [where n = "pred_numeral k" for k, unfolded numeral_eq_Suc [symmetric]]
lemmas readXML_loop_numeral =
  readXML_loop.simps(2) [where n = "pred_numeral k" for k, unfolded numeral_eq_Suc [symmetric]]
lemmas readTable_loop_numeral =
  readTable_loop.simps(2) [where n = "pred_numeral k" for k, unfolded numeral_eq_Suc [symmetric]]
lemmas package_loop_numeral =
  package_loop.simps(2) [where n = "pred_numeral k" for k, unfolded numeral_eq_Suc [symmetric]]
lemma replicate_numeral_Cons: "replicate (numeral k) x = x # replicate (pred_numeral k) x"
  by (simp add: numeral_eq_Suc)

lemmas fuel_One =
  le_slice.simps(2) [where n = 0, unfolded One_nat_def [symmetric]]
  attributes_loop.simps(2) [where k = 0, unfolded One_nat_def [symmetric]]
  readChunk.simps(2) [where n = 0, unfolded One_nat_def [symmetric]]
  readXML_loop.simps(2) [where n = 0, unfolded One_nat_def [symmetric]]
  readTable_loop.simps(2) [where n = 0, unfolded One_nat_def [symmetric]]
  package_loop.simps(2) [where n = 0, unfolded One_nat_def [symmetric]]
lemmas fuel_simps =
  le_slice_numeral attributes_loop_numeral readChunk_numeral readXML_loop_numeral
  readTable_loop_numeral package_loop_numeral replicate_numeral_Cons fuel_One

lemmas build_defs =
  u16le_def u32le_def chunk_header_def utf16_string_def utf8_string_def manifest_strings_def
  manifest_xml_def empty_pool_def package_header_def type_chunk_def two_package_table_def
  utf8_pool_def chunk_type_defs data_type_defs

lemmas reader_defs =
  ReaderAt_def NewSectionReader_def Seek_def binary_Read_def avail_def maxInt64_def or_zero_def

lemmas dec_defs =
  dec_ResChunkHeader_def dec_ResStringPoolHeader_def dec_ResXMLTreeNode_def
  dec_ResXMLTreeNamespaceExt_def dec_ResXMLTreeAttrExt_def dec_ResValue_def
  dec_ResXMLTreeAttribute_def dec_ResXMLTreeEndElementExt_def dec_ResTableHeader_def
  dec_ResTablePackage_def dec_ResTableConfig_def dec_ResTableType_def dec_ResTableEntry_def
  dec_ResTableTypeSpec_def u8_at_def u16_at_def u32_at_def
  zero_ResChunkHeader_def zero_ResStringPoolHeader_def zero_ResXMLTreeNode_def
  zero_ResXMLTreeNamespaceExt_def zero_ResXMLTreeAttrExt_def zero_ResValue_def
  zero_ResXMLTreeAttribute_def zero_ResTableHeader_def zero_ResTableEntry_def

lemmas string_defs =
  ReadStringPool_def read_uint32s_def ReadUTF16_def ReadUTF8_def UTF8_FLAG_def
  string_of_runes_def utf8_EncodeRune_def RuneError_def utf16_DecodeRune_def
  char_of_byte_def char_of_def bit_Suc_0_iff

lemmas xml_defs =
  NewFile_def new_File_def Fprint_def ReadStartNamespace_def ReadEndNamespace_def
  ReadStartElement_def ReadEndElement_def AddNamespace_def GetString_def
  NilResStringPoolRef_def map_index_def map_store_def map_delete_def attr_value_def
  fmt_08X_def hex_digit_def xml_esc_def isInCharacterRange_def contb_def

lemmas table_defs =
  ReadTablePackage_def ReadTableType_def ReadTableTypeSpec_def read_entry_def ReadResourceMap_def

lemmas eval_defs =
  fuel_simps reader_defs dec_defs string_defs xml_defs table_defs chunk_type_defs data_type_defs
  decoded_XML_def decoded_packages_def result_of_def decoded_empty_pool_def first_package_def
  second_package_def zero_TablePackage_def Let_def

section \<open>Properties\<close>

text \<open>
  C10. \<^verbatim>\<open>GetString\<close> is defined on the sentinel \<open>0xFFFFFFFF\<close> (the empty string)
  and on the indices of the decoded pool only: any other reference panics with an
  index out of range, and any reference but the sentinel panics with a nil dereference
  on a File whose string pool was never decoded.
\<close>

theorem GetString_partial:
  "GetString f NilResStringPoolRef = Done []
   \<and> (ref \<noteq> NilResStringPoolRef \<and> stringPool f = None \<longrightarrow> GetString f ref = Panic NilDereference)
   \<and> (ref \<noteq> NilResStringPoolRef \<and> stringPool f = Some sp \<and> length (Strings sp) \<le> unat ref
        \<longrightarrow> GetString f ref = Panic IndexOutOfRange)
   \<and> (ref \<noteq> NilResStringPoolRef \<and> stringPool f = Some sp \<and> unat ref < length (Strings sp)
        \<longrightarrow> GetString f ref = Done (Strings sp ! unat ref))"
  by (simp add: GetString_def)

theorem GetString_partial_witness:
  "GetString new_File NilResStringPoolRef = Done []
   \<and> GetString new_File 0 = Panic NilDereference
   \<and> GetString (new_File\<lparr>stringPool := Some \<lparr>sp_Header = zero_ResStringPoolHeader,
        Strings = [''app''], Styles = []\<rparr>\<rparr>) 1 = Panic IndexOutOfRange
   \<and> GetString (new_File\<lparr>stringPool := Some \<lparr>sp_Header = zero_ResStringPoolHeader,
        Strings = [''app''], Styles = []\<rparr>\<rparr>) 0 = Done ''app''"
  using GetString_partial [of new_File 0 undefined]
    GetString_partial [of "new_File\<lparr>stringPool := Some \<lparr>sp_Header = zero_ResStringPoolHeader,
        Strings = [''app''], Styles = []\<rparr>\<rparr>" 1 "\<lparr>sp_Header = zero_ResStringPoolHeader,
        Strings = [''app''], Styles = []\<rparr>"]
    GetString_partial [of "new_File\<lparr>stringPool := Some \<lparr>sp_Header = zero_ResStringPoolHeader,
        Strings = [''app''], Styles = []\<rparr>\<rparr>" 0 "\<lparr>sp_Header = zero_ResStringPoolHeader,
        Strings = [''app''], Styles = []\<rparr>"]
  by (simp add: new_File_def NilResStringPoolRef_def)

text \<open>
  C9. A \<^verbatim>\<open>Bool\<close> whose text is empty gives \<^verbatim>\<open>(false, nil)\<close> and an
  \<^verbatim>\<open>Int32\<close> whose text is empty gives \<^verbatim>\<open>(0, nil)\<close>, whatever table and
  configuration are bound and whatever the functions of the package do.
\<close>

theorem empty_value_is_zero:
  "(bool_value v = [] \<longrightarrow> Bool_Bool ext v = Done (False, None))
   \<and> (int32_value w = [] \<longrightarrow> Int32_Int32 ext w = Done (0, None))"
  by (simp add: Bool_Bool_def Int32_Int32_def)

theorem empty_value_is_zero_witness:
  "Bool_Bool (failing_externals :: (unit, unit, unit, unit) externals)
     (Bool_inject \<lparr>bool_value = [], bool_table = None, bool_config = None\<rparr> (Some ()) None)
   = Done (False, None)
   \<and> Int32_Int32 (failing_externals :: (unit, unit, unit, unit) externals)
     \<lparr>int32_value = [], int32_table = None, int32_config = None\<rparr>
   = Done (0, None)"
  using empty_value_is_zero [of
      "Bool_inject \<lparr>bool_value = [], bool_table = None, bool_config = None\<rparr> (Some ()) None"
      "failing_externals :: (unit, unit, unit, unit) externals"
      "\<lparr>int32_value = [], int32_table = None, int32_config = None\<rparr>"]
  by (simp add: Bool_inject_def)

text \<open>
  C7. The minimal manifest decodes to exactly the expected document.
\<close>

theorem minimal_manifest:
  "decoded_XML 7 (manifest_xml TYPE_INT_DEC 1) =
     Done ''<?xml version=\"1.0\" encoding=\"utf-8\"?><manifest xmlns:android=\"http://schemas.android.com/apk/res/android\" android:versionCode=\"1\"></manifest>''"
  apply (simp add: build_defs)
  apply (simp add: eval_defs)
  done

text \<open>
  C1. A table that declares two packages and holds two PACKAGE chunks: the claim has
  the File end with the two decoded packages in document order. The program stores
  every package at index 0, so the second package overwrites the first and the second
  slot keeps its zero value.
\<close>

theorem two_packages_overwrite_slot_0:
  "ReadTablePackage 3 (NewSectionReader (ReaderAt two_package_table) 12 (maxInt64 - 12))
     = Done (Inr first_package)
   \<and> ReadTablePackage 4 (NewSectionReader (ReaderAt two_package_table) 352 (maxInt64 - 352))
     = Done (Inr second_package)
   \<and> decoded_packages 8 two_package_table = Done [second_package, zero_TablePackage]"
  apply (simp add: build_defs)
  apply (simp add: eval_defs)
  done

text \<open>
  C2. A UTF-8 pool string is a character count, a byte length and the bytes. The
  program reads one length only and takes the bytes right after it: the string
  \<open>hello\<close> comes out as the byte \<open>0x05\<close> (its byte length) followed by \<open>hell\<close>.
\<close>

theorem ReadUTF8_reads_one_length:
  "ReadUTF8 (ReaderAt (utf8_string ''hello'')) 0 = Inr (CHR 0x05 # ''hell'')
   \<and> map_sum id Strings (ReadStringPool (ReaderAt utf8_pool))
       = Inr [CHR 0x05 # ''hell'', CHR 0x05 # ''worl'']"
  apply (simp add: build_defs)
  apply (simp add: eval_defs)
  done

text \<open>
  C4. The minimal manifest cut after 292 bytes, inside its end-element chunk: the
  decoder of that chunk fails, \<^verbatim>\<open>readChunk\<close> returns the error through the chunk
  recursion, and \<^verbatim>\<open>NewFile\<close> returns \<^verbatim>\<open>nil\<close>.
\<close>

theorem NewFile_drops_the_error:
  "result_of (readChunk 7 new_File (ReaderAt (take 292 (manifest_xml TYPE_INT_DEC 1))) 0)
     = Done (Inl ErrUnexpectedEOF)
   \<and> result_of (NewFile 7 (take 292 (manifest_xml TYPE_INT_DEC 1))) = Done None"
  apply (simp add: build_defs)
  apply (simp add: eval_defs)
  done

end
